theory Spec2Isabelle
  imports Complex_Main
begin

section \<open>Python values used by the load runner and the control API\<close>

text \<open>
  The configuration of a test is a Python dictionary whose values come straight from the
  JSON body of the start request (\<open>Dict[str, Any]\<close>), so a value can be any JSON value.
  Python floats are read as real numbers throughout: rounding is not modelled.
  A dictionary is an association list in insertion order with unique keys.
\<close>

datatype json =
    JNull
  | JBool bool
  | JNum real
  | JStr string
  | JArr "json list"
  | JObj "(string \<times> json) list"

type_synonym py_dict = "(string \<times> json) list"

datatype py_exn =
    AttributeError string
  | IndexError
  | CallbackError string

text \<open>\<open>d.get(k)\<close>: the value, or \<open>None\<close> when the key is missing.\<close>

definition dict_get :: "py_dict \<Rightarrow> string \<Rightarrow> json" where
  "dict_get d k = (case map_of d k of None \<Rightarrow> JNull | Some v \<Rightarrow> v)"

text \<open>\<open>d[k] = v\<close>: replaces the value in place, or appends a new entry.\<close>

fun dict_set :: "py_dict \<Rightarrow> string \<Rightarrow> json \<Rightarrow> py_dict" where
  "dict_set [] k v = [(k, v)]"
| "dict_set ((k', v') # d) k v = (if k' = k then (k, v) # d else (k', v') # dict_set d k v)"

text \<open>Python truthiness, as used by \<open>x or y\<close> and \<open>if x\<close>.\<close>

fun truthy :: "json \<Rightarrow> bool" where
  "truthy JNull = False"
| "truthy (JBool b) = b"
| "truthy (JNum n) = (n \<noteq> 0)"
| "truthy (JStr s) = (s \<noteq> [])"
| "truthy (JArr xs) = (xs \<noteq> [])"
| "truthy (JObj d) = (d \<noteq> [])"

definition py_or :: "json \<Rightarrow> json \<Rightarrow> json" where
  "py_or x y = (if truthy x then x else y)"

definition upper_char :: "char \<Rightarrow> char" where
  "upper_char c =
     (case map_of (zip ''abcdefghijklmnopqrstuvwxyz'' ''ABCDEFGHIJKLMNOPQRSTUVWXYZ'') c of
        None \<Rightarrow> c | Some u \<Rightarrow> u)"

definition lower_char :: "char \<Rightarrow> char" where
  "lower_char c =
     (case map_of (zip ''ABCDEFGHIJKLMNOPQRSTUVWXYZ'' ''abcdefghijklmnopqrstuvwxyz'') c of
        None \<Rightarrow> c | Some l \<Rightarrow> l)"

text \<open>\<open>x.upper()\<close> and \<open>x.lower()\<close> exist on strings only; elsewhere Python raises AttributeError.\<close>

fun upper :: "json \<Rightarrow> py_exn + string" where
  "upper (JStr s) = Inr (map upper_char s)"
| "upper _ = Inl (AttributeError ''upper'')"

fun lower :: "json \<Rightarrow> py_exn + string" where
  "lower (JStr s) = Inr (map lower_char s)"
| "lower _ = Inl (AttributeError ''lower'')"

text \<open>\<open>h.setdefault(k, v)\<close> exists on dictionaries only; it keeps an existing entry.\<close>

fun setdefault :: "json \<Rightarrow> string \<Rightarrow> json \<Rightarrow> py_exn + json" where
  "setdefault (JObj d) k v =
     Inr (JObj (case map_of d k of None \<Rightarrow> d @ [(k, v)] | Some _ \<Rightarrow> d))"
| "setdefault _ k v = Inl (AttributeError ''setdefault'')"

fun is_dict :: "json \<Rightarrow> bool" where
  "is_dict (JObj d) = True"
| "is_dict _ = False"

text \<open>\<open>int(x)\<close> on a float truncates towards zero.\<close>

definition py_int :: "real \<Rightarrow> int" where
  "py_int x = (if 0 \<le> x then \<lfloor>x\<rfloor> else \<lceil>x\<rceil>)"

text \<open>\<open>str(n)\<close> for an integer: its decimal digits.\<close>

fun str_nat :: "nat \<Rightarrow> string" where
  "str_nat n = (if n < 10 then [''0123456789'' ! n] else str_nat (n div 10) @ [''0123456789'' ! (n mod 10)])"

declare str_nat.simps [simp del]

definition str_int :: "int \<Rightarrow> string" where
  "str_int i = (if i < 0 then CHR ''-'' # str_nat (nat (- i)) else str_nat (nat i))"

section \<open>The HTTP load runner (\<open>load_runner.py\<close>)\<close>

subsection \<open>State of one runner\<close>

record error_entry =
  time :: int
  code :: int
  message :: string

record sample =
  timestamp :: int
  status :: int
  ok :: bool
  responseTime :: real

record ts_point =
  second :: int
  requestsPerSecond :: nat
  avgResponseTime :: real

text \<open>
  The fields of \<open>HTTPLoadRunner\<close>. A callback returns \<open>Some text\<close> when it raises.
\<close>

record runner =
  config :: py_dict
  on_sample :: "(sample \<Rightarrow> string option) option"
  stop_requested :: bool
  total :: nat
  passed :: nat
  failed :: nat
  latencies :: "real list"
  codes :: "string \<rightharpoonup> nat"
  errors :: "error_entry list"
  samples :: "sample list"
  timeseries :: "ts_point list"
  per_second_count :: "int \<rightharpoonup> nat"
  per_second_rt_sum :: "int \<rightharpoonup> real"

definition init :: "py_dict \<Rightarrow> (sample \<Rightarrow> string option) option \<Rightarrow> runner" where
  "init cfg cb =
     \<lparr>config = cfg, on_sample = cb, stop_requested = False,
      total = 0, passed = 0, failed = 0, latencies = [], codes = Map.empty,
      errors = [], samples = [], timeseries = [],
      per_second_count = Map.empty, per_second_rt_sum = Map.empty\<rparr>"

subsection \<open>Building the request\<close>

datatype payload = NoData | FormData json | StrData json

record request =
  req_method :: string
  req_url :: json
  req_headers :: json
  req_params :: json
  req_data :: payload
  req_json :: json

text \<open>
  Lines 50 to 66 of \<open>_send_one\<close>. \<open>headers\<close> is the very dictionary stored in the
  configuration when that one is truthy, and a fresh empty dictionary otherwise, so
  \<open>headers.setdefault\<close> writes into the configuration in the first case. The function
  returns the request and the configuration as it is afterwards. \<open>StrData b\<close> stands for
  \<open>str(b)\<close>.
\<close>

definition build_request :: "py_dict \<Rightarrow> py_exn + (request \<times> py_dict)" where
  "build_request cfg =
     (let url = dict_get cfg ''url'' in
      case upper (py_or (dict_get cfg ''method'') (JStr ''GET'')) of
        Inl e \<Rightarrow> Inl e
      | Inr method \<Rightarrow>
     (let shared = truthy (dict_get cfg ''headers'');
          headers = py_or (dict_get cfg ''headers'') (JObj []);
          params = py_or (dict_get cfg ''params'') (JObj []);
          body = dict_get cfg ''body'' in
      case lower (py_or (dict_get cfg ''bodyType'') (JStr ''raw'')) of
        Inl e \<Rightarrow> Inl e
      | Inr body_type \<Rightarrow>
          if method \<in> set [''POST'', ''PUT'', ''PATCH''] \<and> body \<noteq> JNull then
            if body_type = ''json'' then
              (case setdefault headers ''Content-Type'' (JStr ''application/json'') of
                 Inl e \<Rightarrow> Inl e
               | Inr headers' \<Rightarrow>
                   Inr (\<lparr>req_method = method, req_url = url, req_headers = headers',
                         req_params = params, req_data = NoData, req_json = body\<rparr>,
                        if shared then dict_set cfg ''headers'' headers' else cfg))
            else if body_type = ''form'' \<and> is_dict body then
              Inr (\<lparr>req_method = method, req_url = url, req_headers = headers,
                    req_params = params, req_data = FormData body, req_json = JNull\<rparr>, cfg)
            else
              Inr (\<lparr>req_method = method, req_url = url, req_headers = headers,
                    req_params = params, req_data = StrData body, req_json = JNull\<rparr>, cfg)
          else
            Inr (\<lparr>req_method = method, req_url = url, req_headers = headers,
                  req_params = params, req_data = NoData, req_json = JNull\<rparr>, cfg)))"

subsection \<open>Performing the request and recording the sample\<close>

text \<open>
  What the HTTP call does: a response with its status and text, or an exception (any
  subclass of \<open>Exception\<close>: DNS, connect, TLS, timeout, reset, a bad URL) with its text.
\<close>

datatype http_result = Response int string | Raised string

text \<open>Lines 70 to 84: status, ok and the text preview.\<close>

definition perform :: "http_result \<Rightarrow> int \<times> bool \<times> string option" where
  "perform res =
     (case res of
        Response st text \<Rightarrow>
          (st, 200 \<le> st \<and> st < 400, Some (if length text > 4096 then take 4096 text else text))
      | Raised e \<Rightarrow> (0, False, Some e))"

definition count_get :: "('k \<rightharpoonup> nat) \<Rightarrow> 'k \<Rightarrow> nat" where
  "count_get m k = (case m k of None \<Rightarrow> 0 | Some c \<Rightarrow> c)"

definition sum_get :: "('k \<rightharpoonup> real) \<Rightarrow> 'k \<Rightarrow> real" where
  "sum_get m k = (case m k of None \<Rightarrow> 0 | Some c \<Rightarrow> c)"

text \<open>Lines 88 to 115: the aggregation of one sample.\<close>

definition aggregate :: "int \<Rightarrow> int \<Rightarrow> bool \<Rightarrow> string option \<Rightarrow> real \<Rightarrow> runner \<Rightarrow> runner" where
  "aggregate ts_ms st is_ok preview elapsed_ms r =
     (let r1 = r\<lparr>total := total r + 1,
                 latencies := latencies r @ [elapsed_ms],
                 codes := (codes r)(str_int st \<mapsto> count_get (codes r) (str_int st) + 1)\<rparr>;
          r2 = (if is_ok then r1\<lparr>passed := passed r1 + 1\<rparr>
                else (let r1' = r1\<lparr>failed := failed r1 + 1\<rparr> in
                      if length (errors r1') < 200
                      then r1'\<lparr>errors := errors r1' @
                             [\<lparr>time = ts_ms, code = st,
                               message = (case preview of None \<Rightarrow> [] | Some t \<Rightarrow> t)\<rparr>]\<rparr>
                      else r1'));
          sec_bucket = ts_ms div 1000;
          r3 = r2\<lparr>per_second_count :=
                     (per_second_count r2)(sec_bucket \<mapsto> count_get (per_second_count r2) sec_bucket + 1),
                   per_second_rt_sum :=
                     (per_second_rt_sum r2)(sec_bucket \<mapsto> sum_get (per_second_rt_sum r2) sec_bucket + elapsed_ms)\<rparr>
      in if length (samples r3) < 500
         then r3\<lparr>samples := samples r3 @
                [\<lparr>timestamp = ts_ms, status = st, ok = is_ok, responseTime = elapsed_ms\<rparr>]\<rparr>
         else r3)"

text \<open>
  What the environment contributes to one call of \<open>_send_one\<close>: the wall clock read at
  line 68 (before the request is sent), the monotonic clock read at line 69, the outcome of
  the HTTP call, and the monotonic clock read at line 86 (after the outcome is known).
\<close>

record exchange =
  wall :: real
  t0 :: real
  result :: http_result
  t1 :: real

text \<open>
  The wall-clock instant at which the outcome of the request was observed: the instant of
  line 68 plus the time measured by the monotonic clock up to line 86. The code never
  computes it; it is what a completion timestamp would be.
\<close>

definition completed_at :: "exchange \<Rightarrow> real" where
  "completed_at x = wall x + (t1 x - t0 x)"

text \<open>
  \<open>_send_one\<close>. An exception leaves the function with the state as it is at that point,
  hence the pair: the state afterwards, and the exception if one was raised.
\<close>

definition send_one :: "exchange \<Rightarrow> runner \<Rightarrow> runner \<times> py_exn option" where
  "send_one x r =
     (case build_request (config r) of
        Inl e \<Rightarrow> (r, Some e)
      | Inr (req, cfg') \<Rightarrow>
          (let ts_ms = py_int (wall x * 1000);
               (st, is_ok, preview) = perform (result x);
               elapsed_ms = (t1 x - t0 x) * 1000;
               r' = aggregate ts_ms st is_ok preview elapsed_ms (r\<lparr>config := cfg'\<rparr>)
           in case on_sample r' of
                None \<Rightarrow> (r', None)
              | Some cb \<Rightarrow>
                  (r', map_option CallbackError
                         (cb \<lparr>timestamp = ts_ms, status = st, ok = is_ok, responseTime = elapsed_ms\<rparr>))))"

subsection \<open>The ticker\<close>

text \<open>One round of \<open>tick_task\<close> after its sleep, with the wall clock read at line 151.\<close>

definition tick :: "real \<Rightarrow> runner \<Rightarrow> runner" where
  "tick now r =
     (let now_sec = py_int now;
          cnt = count_get (per_second_count r) now_sec;
          rt_avg = (if cnt > 0 then sum_get (per_second_rt_sum r) now_sec / real cnt else 0)
      in r\<lparr>timeseries := timeseries r @
             [\<lparr>second = now_sec, requestsPerSecond = cnt, avgResponseTime = rt_avg\<rparr>]\<rparr>)"

subsection \<open>A run as a sequence of events\<close>

text \<open>
  All tasks of a runner share one event loop, and neither the part of \<open>_send_one\<close> after
  the HTTP call nor a round of the ticker contains an \<open>await\<close>, so the state of the
  aggregator evolves by a sequence of completed requests and ticks. An exception of
  \<open>_send_one\<close> stays in its task and the run goes on.
\<close>

datatype event = Sample exchange | Tick real

fun apply_event :: "runner \<Rightarrow> event \<Rightarrow> runner" where
  "apply_event r (Sample x) = fst (send_one x r)"
| "apply_event r (Tick now) = tick now r"

definition run_events :: "event list \<Rightarrow> runner \<Rightarrow> runner" where
  "run_events evs r = foldl apply_event r evs"

text \<open>
  The key \<open>sec_bucket = ts_ms // 1000\<close> (lines 68 and 104) and the latency
  \<open>elapsed_ms\<close> (line 86) of one call of \<open>_send_one\<close>.
\<close>

definition bucket_of :: "exchange \<Rightarrow> int" where
  "bucket_of x = py_int (wall x * 1000) div 1000"

definition elapsed_of :: "exchange \<Rightarrow> real" where
  "elapsed_of x = (t1 x - t0 x) * 1000"

text \<open>
  The requests of a run that reached the aggregation of lines 88 to 115, in order: those
  whose call of \<open>_send_one\<close> got past the construction of the request.
\<close>

fun recorded :: "runner \<Rightarrow> event list \<Rightarrow> exchange list" where
  "recorded r [] = []"
| "recorded r (Sample x # es) =
     (case build_request (config r) of Inl e \<Rightarrow> [] | Inr p \<Rightarrow> [x])
       @ recorded (apply_event r (Sample x)) es"
| "recorded r (Tick now # es) = recorded (apply_event r (Tick now)) es"

subsection \<open>The final summary\<close>

record summary =
  totalRequests :: nat
  successfulRequests :: nat
  failedRequests :: nat
  successRate :: real
  sum_avgResponseTime :: real
  percentile95 :: real
  peakRPS :: real
  sum_requestsPerSecond :: real
  duration :: real
  sum_codes :: "string \<rightharpoonup> nat"
  sum_errors :: "error_entry list"
  sum_samples :: "sample list"
  sum_timeseries :: "ts_point list"

text \<open>\<open>max(xs, default=d)\<close>.\<close>

fun py_max_default :: "real list \<Rightarrow> real \<Rightarrow> real" where
  "py_max_default [] d = d"
| "py_max_default (x # xs) d = fold max xs x"

text \<open>\<open>xs[i]\<close> for a non-negative index: IndexError out of range.\<close>

definition index :: "'a list \<Rightarrow> int \<Rightarrow> py_exn + 'a" where
  "index xs i = (if 0 \<le> i \<and> i < int (length xs) then Inr (xs ! nat i) else Inl IndexError)"

text \<open>
  \<open>_finalize\<close>, with the wall clock read at line 248. The \<open>timestamp\<close> entry (the local
  date and time as text) is left out.
\<close>

definition finalize :: "real \<Rightarrow> real \<Rightarrow> runner \<Rightarrow> py_exn + summary" where
  "finalize start_ts now r =
     (let lat = (if latencies r \<noteq> [] then sort (latencies r) else []) in
      case (if lat \<noteq> [] then index lat (py_int (0.95 * real_of_int (int (length lat) - 1))) else Inr 0) of
        Inl e \<Rightarrow> Inl e
      | Inr p95 \<Rightarrow>
     (let avg = (if latencies r \<noteq> [] then sum_list (latencies r) / real (length (latencies r)) else 0);
          dur = max 0.001 (now - start_ts);
          achieved_tps = (if total r \<noteq> 0 then real (total r) / dur else 0)
      in Inr \<lparr>totalRequests = total r,
              successfulRequests = passed r,
              failedRequests = failed r,
              successRate = (if total r \<noteq> 0 then real (passed r) / real (total r) * 100 else 0),
              sum_avgResponseTime = avg,
              percentile95 = p95,
              peakRPS = py_max_default (map (\<lambda>p. real (requestsPerSecond p)) (timeseries r)) achieved_tps,
              sum_requestsPerSecond = achieved_tps,
              duration = dur,
              sum_codes = codes r,
              sum_errors = errors r,
              sum_samples = samples r,
              sum_timeseries = timeseries r\<rparr>))"

subsection \<open>Pacing\<close>

text \<open>
  The numbers \<open>_runner\<close> reads from the configuration at lines 136 to 140, after their
  conversion by \<open>int\<close> and \<open>float\<close>: \<open>users\<close> is \<open>int(config.get('users') or 50)\<close>,
  and \<open>loop_count\<close> is \<open>None\<close> in duration mode.
\<close>

record params =
  duration_seconds :: int
  ramp_up :: int
  target_tps :: real
  loop_count :: "int option"
  users :: int

definition max_concurrency :: "params \<Rightarrow> nat" where
  "max_concurrency prm = nat (max 1 (users prm))"

text \<open>Lines 179 to 185: the rate and the interval at elapsed time \<open>elapsed\<close>.\<close>

definition current_tps :: "params \<Rightarrow> real \<Rightarrow> real" where
  "current_tps prm elapsed =
     (if ramp_up prm > 0 \<and> elapsed < real_of_int (ramp_up prm)
      then target_tps prm * (elapsed / real_of_int (ramp_up prm))
      else target_tps prm)"

definition duration_interval :: "params \<Rightarrow> real \<Rightarrow> real" where
  "duration_interval prm elapsed =
     (if current_tps prm elapsed \<le> 0 then 0 else 1 / current_tps prm elapsed)"

text \<open>Line 207: the interval of iteration mode.\<close>

definition iteration_interval :: "params \<Rightarrow> real" where
  "iteration_interval prm = (if target_tps prm \<le> 0 then 0 else 1 / target_tps prm)"

text \<open>
  Lines 193 to 199 (and 210 to 216): what the scheduler does after a launch. \<open>Sleep d\<close> is
  \<open>asyncio.sleep(d)\<close> with \<open>d > 0\<close>, \<open>Yield\<close> is \<open>asyncio.sleep(0)\<close>, and \<open>NoPause\<close> is the
  case of a slot already in the past, where the loop goes on without any \<open>await\<close>.
\<close>

datatype pause = Sleep real | Yield | NoPause

definition pace :: "real \<Rightarrow> real \<Rightarrow> real \<Rightarrow> real \<times> pause" where
  "pace next_at interval perf_now =
     (if interval > 0
      then (let next_at' = next_at + interval;
                delay = max 0 (next_at' - perf_now)
            in (next_at', if delay \<noteq> 0 then Sleep delay else NoPause))
      else (next_at, Yield))"

subsection \<open>The scheduler, the semaphore and the tasks\<close>

text \<open>
  The state of \<open>_runner\<close> while the scheduler runs: the value of the semaphore, the
  request ids of the tasks created by \<open>create_task\<close> whose \<open>_task_wrapper\<close> has not yet
  released its permit, the number of launches, the next slot, the pause chosen by the
  last launch, and the runner's own fields.
\<close>

record sched =
  sem_value :: nat
  in_flight :: "nat list"
  sent :: nat
  next_at :: real
  last_pause :: pause
  agg :: runner

definition sched_init :: "params \<Rightarrow> real \<Rightarrow> runner \<Rightarrow> sched" where
  "sched_init prm perf_start r =
     \<lparr>sem_value = max_concurrency prm, in_flight = [], sent = 0,
      next_at = perf_start, last_pause = NoPause, agg = r\<rparr>"

text \<open>
  \<open>await sem.acquire()\<close> returns only when the value of the semaphore is positive, and
  takes one permit; then the task is created. While the value is zero the scheduler
  waits: there is no launch.
\<close>

definition launch :: "real \<Rightarrow> real \<Rightarrow> sched \<Rightarrow> sched option" where
  "launch interval perf_now s =
     (if sem_value s = 0 then None
      else (let (next_at', p) = pace (next_at s) interval perf_now
            in Some (s\<lparr>sem_value := sem_value s - 1,
                       in_flight := in_flight s @ [sent s],
                       sent := sent s + 1,
                       next_at := next_at',
                       last_pause := p\<rparr>)))"

text \<open>\<open>_task_wrapper\<close>: the request, then the release of the permit in \<open>finally\<close>.\<close>

definition task_wrapper :: "nat \<Rightarrow> exchange \<Rightarrow> sched \<Rightarrow> sched" where
  "task_wrapper req_id x s =
     s\<lparr>agg := fst (send_one x (agg s)),
       in_flight := remove1 req_id (in_flight s),
       sem_value := sem_value s + 1\<rparr>"

text \<open>
  What can happen next: a round of the scheduler's loop (with the wall clock read by the
  loop condition, the wall clock read for \<open>elapsed\<close>, and the monotonic clock read after
  the launch), the end of a task, or a tick. An event that cannot happen in a state
  gives \<open>None\<close>.
\<close>

datatype sched_event =
    Round real real real
  | Done nat exchange
  | Ticked real

fun sched_step :: "params \<Rightarrow> real \<Rightarrow> sched \<Rightarrow> sched_event \<Rightarrow> sched option" where
  "sched_step prm start s (Round wall1 wall2 perf_now) =
     (case loop_count prm of
        None \<Rightarrow>
          if wall1 - start < real_of_int (duration_seconds prm) \<and> \<not> stop_requested (agg s)
          then launch (duration_interval prm (wall2 - start)) perf_now s
          else None
      | Some n \<Rightarrow>
          if int (sent s) < n \<and> \<not> stop_requested (agg s)
          then launch (iteration_interval prm) perf_now s
          else None)"
| "sched_step prm start s (Done req_id x) =
     (if req_id \<in> set (in_flight s) then Some (task_wrapper req_id x s) else None)"
| "sched_step prm start s (Ticked now) = Some (s\<lparr>agg := tick now (agg s)\<rparr>)"


section \<open>The registry of tests (\<open>jmeter_runner.py\<close>)\<close>

text \<open>
  An entry of \<open>active_tests\<close>. \<open>ti_process\<close> tells whether the entry has a \<open>process\<close>
  key. The results of an HTTP test are the summary of its runner; those of the other
  back-end are a dictionary.
\<close>

datatype results = HttpResults summary | OtherResults py_dict

record test_info =
  ti_config :: py_dict
  ti_start_time :: real
  ti_status :: string
  ti_process :: bool
  ti_end_time :: "real option"
  ti_results :: "results option"
  ti_error :: "string option"

type_synonym registry = "string \<rightharpoonup> test_info"

record status_doc =
  sd_testId :: string
  sd_status :: string
  sd_startTime :: real
  sd_config :: py_dict
  sd_endTime :: "real option"
  sd_results :: "results option"
  sd_error :: "string option"

text \<open>\<open>NotFound\<close> is the object \<open>{'error': 'Test not found'}\<close>.\<close>

datatype status_reply = NotFound | Found status_doc

definition get_test_status :: "registry \<Rightarrow> string \<Rightarrow> status_reply" where
  "get_test_status reg test_id =
     (case reg test_id of
        None \<Rightarrow> NotFound
      | Some info \<Rightarrow>
          Found \<lparr>sd_testId = test_id, sd_status = ti_status info,
                 sd_startTime = ti_start_time info, sd_config = ti_config info,
                 sd_endTime = ti_end_time info, sd_results = ti_results info,
                 sd_error = ti_error info\<rparr>)"

text \<open>
  \<open>StopOk m\<close> is \<open>{'success': True, 'message': m}\<close> and \<open>StopFailed e\<close> is
  \<open>{'success': False, 'error': e}\<close>. An entry that is running and has no \<open>process\<close> key
  makes \<open>stop_test\<close> raise KeyError.
\<close>

datatype stop_reply = StopOk string | StopFailed string

datatype key_error = KeyError string

definition stop_test :: "registry \<Rightarrow> string \<Rightarrow> key_error + (stop_reply \<times> registry)" where
  "stop_test reg test_id =
     (case reg test_id of
        Some info \<Rightarrow>
          if ti_status info = ''running'' then
            if ti_process info
            then Inr (StopOk (''Test '' @ test_id @ '' stopped''),
                      reg(test_id \<mapsto> info\<lparr>ti_status := ''stopped''\<rparr>))
            else Inl (KeyError ''process'')
          else Inr (StopFailed ''Test not found or not running'', reg)
      | None \<Rightarrow> Inr (StopFailed ''Test not found or not running'', reg))"

text \<open>
  \<open>run_jmeter_test\<close>, as far as the registry goes. The environment decides whether the
  simulated back-end is used, and whether writing the plan and starting the process
  raise (with the text of the exception).
\<close>

datatype jm_env = Cloud | Local "string option"

definition run_jmeter_test :: "jm_env \<Rightarrow> real \<Rightarrow> string \<Rightarrow> py_dict \<Rightarrow> registry \<Rightarrow> (string + unit) \<times> registry" where
  "run_jmeter_test env now test_id test_config reg =
     (case env of
        Cloud \<Rightarrow>
          (Inr (), reg(test_id \<mapsto> \<lparr>ti_config = test_config, ti_start_time = now,
                                    ti_status = ''running'', ti_process = False,
                                    ti_end_time = None, ti_results = None, ti_error = None\<rparr>))
      | Local (Some e) \<Rightarrow> (Inl (''Failed to start test: '' @ e), reg)
      | Local None \<Rightarrow>
          (Inr (), reg(test_id \<mapsto> \<lparr>ti_config = test_config, ti_start_time = now,
                                    ti_status = ''running'', ti_process = True,
                                    ti_end_time = None, ti_results = None, ti_error = None\<rparr>)))"

section \<open>The start operation of the control API (\<open>app.py\<close>)\<close>

text \<open>\<open>d.get(k, default)\<close>: the default only when the key is missing.\<close>

definition dict_get_default :: "py_dict \<Rightarrow> string \<Rightarrow> json \<Rightarrow> json" where
  "dict_get_default d k dflt = (case map_of d k of None \<Rightarrow> dflt | Some v \<Rightarrow> v)"

definition required_fields :: "string list" where
  "required_fields = [''type'', ''url'', ''users'', ''duration'']"

definition optional_fields :: "string list" where
  "optional_fields = [''httpSampler'', ''httpSamplers'', ''auth'', ''assertions'', ''tps'', ''schedule'']"

text \<open>Lines 583 to 598: an optional field is copied when the request has it.\<close>

definition copy_if_present :: "py_dict \<Rightarrow> py_dict \<Rightarrow> string \<Rightarrow> py_dict" where
  "copy_if_present d cfg k = (case map_of d k of None \<Rightarrow> cfg | Some v \<Rightarrow> dict_set cfg k v)"

definition make_test_id :: "real \<Rightarrow> string" where
  "make_test_id now = ''test_'' @ str_int (py_int now)"

definition make_test_config :: "string \<Rightarrow> py_dict \<Rightarrow> py_dict" where
  "make_test_config test_id d =
     foldl (copy_if_present d)
       [(''id'', JStr test_id),
        (''type'', dict_get_default d ''type'' (JStr ''Load Test'')),
        (''url'', dict_get_default d ''url'' (JStr ''http://localhost:3000'')),
        (''users'', dict_get_default d ''users'' (JNum 100)),
        (''duration'', dict_get_default d ''duration'' (JNum 600)),
        (''ramp_up'', dict_get_default d ''rampUp'' (JNum 10)),
        (''think_time'', dict_get_default d ''thinkTime'' (JNum 1000))]
       optional_fields"

definition make_http_cfg :: "py_dict \<Rightarrow> py_dict" where
  "make_http_cfg d =
     [(''url'', dict_get d ''url''),
      (''method'', dict_get_default d ''method'' (JStr ''GET'')),
      (''headers'', dict_get d ''headers''),
      (''params'', dict_get d ''params''),
      (''body'', dict_get d ''body''),
      (''bodyType'', dict_get d ''bodyType''),
      (''auth'', dict_get d ''auth''),
      (''users'', dict_get_default d ''users'' (JNum 50)),
      (''target_tps'', py_or (dict_get d ''target_tps'') (dict_get d ''tps'')),
      (''duration_seconds'', dict_get d ''duration''),
      (''ramp_up_seconds'', dict_get d ''rampUp''),
      (''loop_count'', dict_get d ''loopCount'')]"

text \<open>
  The reply of \<open>start_test\<close>: \<open>Refused c e\<close> is \<open>{'success': False, 'error': e}\<close> with
  HTTP status \<open>c\<close>; \<open>Crashed x\<close> is the reply of the \<open>except\<close> branch, status 500 with
  the error \<open>Failed to start test:\<close> followed by the text of the exception \<open>x\<close>;
  \<open>Started\<close> is \<open>{'success': True, 'testId': \<dots>, 'message': \<dots>, 'config': \<dots>}\<close> with
  status 200. The message of the other back-end contains the text of the request's
  \<open>type\<close>.
\<close>

datatype start_message = HttpStarted | JMeterStarted json

datatype start_reply =
    Refused nat string
  | Crashed py_exn
  | Started string start_message py_dict

text \<open>
  What \<open>start_test\<close> leaves running: the thread of an HTTP test with its runner's
  configuration, or the monitor of the other back-end.
\<close>

datatype spawned = HttpThread string py_dict py_dict | Monitor string py_dict

text \<open>
  \<open>start_test\<close>, with the parsed JSON body of the request (\<open>JNull\<close> for none) and the
  clock read for the id.
\<close>

definition start_test :: "jm_env \<Rightarrow> real \<Rightarrow> json \<Rightarrow> registry \<Rightarrow> start_reply \<times> registry \<times> spawned option" where
  "start_test env now data reg =
     (if \<not> truthy data then (Refused 400 ''No test configuration provided'', reg, None)
      else case data of
        JObj d \<Rightarrow>
          (let test_type = dict_get_default d ''type'' (JStr ''Load Test'') in
           case find (\<lambda>field. map_of d field = None) required_fields of
             Some field \<Rightarrow> (Refused 400 (''Missing required field: '' @ field), reg, None)
           | None \<Rightarrow>
              (let test_id = make_test_id now;
                   test_config = make_test_config test_id d
               in if test_type = JStr ''HTTP Test''
                  then (Started test_id HttpStarted test_config, reg,
                        Some (HttpThread test_id (make_http_cfg d) test_config))
                  else (case run_jmeter_test env now test_id test_config reg of
                          (Inr u, reg') \<Rightarrow>
                            (Started test_id (JMeterStarted (dict_get test_config ''type'')) test_config,
                             reg', Some (Monitor test_id test_config))
                        | (Inl e, reg') \<Rightarrow> (Refused 500 e, reg', None))))
      | _ \<Rightarrow> (Crashed (AttributeError ''get''), reg, None))"

text \<open>
  The end of the thread of an HTTP test (\<open>_run_http\<close>): after \<open>runner.run()\<close> has
  returned the summary, the entry of the test is written.
\<close>

definition run_http_finished :: "string \<Rightarrow> py_dict \<Rightarrow> real \<Rightarrow> summary \<Rightarrow> registry \<Rightarrow> registry" where
  "run_http_finished test_id test_config now res reg =
     reg(test_id \<mapsto> \<lparr>ti_config = test_config, ti_start_time = now,
                      ti_status = ''completed'', ti_process = False,
                      ti_end_time = None, ti_results = Some (HttpResults res), ti_error = None\<rparr>)"

text \<open>
  The regular end of \<open>_monitor_test\<close> and \<open>_monitor_simulated_test\<close> of the other
  back-end: they change an entry only when it exists.
\<close>

definition monitor_finished :: "string \<Rightarrow> real \<Rightarrow> results option \<Rightarrow> registry \<Rightarrow> registry" where
  "monitor_finished test_id now res reg =
     (case reg test_id of
        None \<Rightarrow> reg
      | Some info \<Rightarrow>
          reg(test_id \<mapsto> info\<lparr>ti_status := ''completed'', ti_end_time := Some now,
                                 ti_results := (case res of None \<Rightarrow> ti_results info | Some x \<Rightarrow> Some x)\<rparr>))"

text \<open>
  What happens to the registry while tests run: requests to the control API and the ends
  of threads.
\<close>

datatype srv_event =
    StartRequest jm_env real json
  | StatusRequest string
  | StopRequest string
  | HttpFinished string py_dict real summary
  | MonitorFinished string real "results option"

fun srv_step :: "registry \<Rightarrow> srv_event \<Rightarrow> registry" where
  "srv_step reg (StartRequest env now data) = fst (snd (start_test env now data reg))"
| "srv_step reg (StatusRequest test_id) = reg"
| "srv_step reg (StopRequest test_id) =
     (case stop_test reg test_id of Inl e \<Rightarrow> reg | Inr (reply, reg') \<Rightarrow> reg')"
| "srv_step reg (HttpFinished test_id test_config now res) =
     run_http_finished test_id test_config now res reg"
| "srv_step reg (MonitorFinished test_id now res) = monitor_finished test_id now res reg"

text \<open>The id whose entry an event can create.\<close>

fun creates :: "srv_event \<Rightarrow> string option" where
  "creates (StartRequest env now data) = Some (make_test_id now)"
| "creates (HttpFinished test_id test_config now res) = Some test_id"
| "creates _ = None"

section \<open>The counters of the aggregator\<close>

lemma aggregate_counters:
  "passed (aggregate ts st b pv el r) + failed (aggregate ts st b pv el r)
     = passed r + failed r + 1
   \<and> total (aggregate ts st b pv el r) = total r + 1"
  by (simp add: aggregate_def Let_def)

lemma send_one_balance:
  "passed r + failed r = total r \<Longrightarrow>
   passed (fst (send_one x r)) + failed (fst (send_one x r)) = total (fst (send_one x r))"
  by (simp add: send_one_def Let_def aggregate_counters split: sum.splits prod.splits option.splits)

lemma tick_counters:
  "passed (tick now r) = passed r \<and> failed (tick now r) = failed r \<and> total (tick now r) = total r"
  by (simp add: tick_def Let_def)

lemma apply_event_balance:
  "passed r + failed r = total r \<Longrightarrow>
   passed (apply_event r e) + failed (apply_event r e) = total (apply_event r e)"
  by (cases e) (simp_all add: send_one_balance tick_counters)

lemma run_events_balance:
  "passed r + failed r = total r \<Longrightarrow>
   passed (run_events evs r) + failed (run_events evs r) = total (run_events evs r)"
  unfolding run_events_def
  by (induction evs arbitrary: r) (simp_all add: apply_event_balance)

section \<open>The final summary\<close>

lemma p95_index_in_range:
  assumes "0 < n"
  shows "0 \<le> py_int (0.95 * real_of_int (int n - 1)) \<and> py_int (0.95 * real_of_int (int n - 1)) < int n"
proof -
  let ?x = "0.95 * real_of_int (int n - 1)"
  have nn: "0 \<le> ?x" using assms by simp
  have le: "?x \<le> real_of_int (int n - 1)" using assms by simp
  have "\<lfloor>?x\<rfloor> \<le> int n - 1" using le by (metis floor_mono floor_of_int)
  moreover have "0 \<le> \<lfloor>?x\<rfloor>" using nn by simp
  ultimately show ?thesis using nn by (simp add: py_int_def)
qed

lemma p95_index_floor:
  assumes "0 < n"
  shows "py_int (0.95 * real_of_int (int n - 1)) = \<lfloor>0.95 * (real n - 1)\<rfloor>"
proof -
  have one: "1 \<le> real n" using assms by simp
  have eq: "real_of_int (int n - 1) = real n - 1" by simp
  have "0 \<le> 0.95 * (real n - 1)" using one by simp
  then show ?thesis unfolding eq by (simp only: py_int_def if_True)
qed

lemma p95_index_nat:
  assumes "0 < n"
  shows "nat \<lfloor>0.95 * (real n - 1)\<rfloor> < n"
proof -
  have "0 \<le> \<lfloor>0.95 * (real n - 1)\<rfloor>" and "\<lfloor>0.95 * (real n - 1)\<rfloor> < int n"
    using p95_index_in_range [OF assms] p95_index_floor [OF assms] by simp_all
  then show ?thesis by (simp add: nat_less_iff)
qed

lemma py_max_default_Max:
  "xs \<noteq> [] \<Longrightarrow> py_max_default xs d = Max (set xs)"
proof (cases xs)
  case Nil
  then show "xs \<noteq> [] \<Longrightarrow> ?thesis" by simp
next
  case (Cons a list)
  then show ?thesis using Max.set_eq_fold [of a list] by simp
qed

lemma finalize_Inr:
  "finalize start_ts now r =
     Inr \<lparr>totalRequests = total r,
          successfulRequests = passed r,
          failedRequests = failed r,
          successRate = (if total r \<noteq> 0 then real (passed r) / real (total r) * 100 else 0),
          sum_avgResponseTime =
            (if latencies r \<noteq> [] then sum_list (latencies r) / real (length (latencies r)) else 0),
          percentile95 =
            (if latencies r \<noteq> []
             then sort (latencies r) ! nat (py_int (0.95 * real_of_int (int (length (latencies r)) - 1)))
             else 0),
          peakRPS = py_max_default (map (\<lambda>p. real (requestsPerSecond p)) (timeseries r))
                      (if total r \<noteq> 0 then real (total r) / max 0.001 (now - start_ts) else 0),
          sum_requestsPerSecond = (if total r \<noteq> 0 then real (total r) / max 0.001 (now - start_ts) else 0),
          duration = max 0.001 (now - start_ts),
          sum_codes = codes r,
          sum_errors = errors r,
          sum_samples = samples r,
          sum_timeseries = timeseries r\<rparr>"
proof (cases "latencies r = []")
  case True
  then show ?thesis by (simp add: finalize_def Let_def)
next
  case False
  then have "0 < length (latencies r)" by simp
  moreover have "sort (latencies r) \<noteq> []"
    using False by (metis length_sort length_0_conv)
  ultimately show ?thesis
    using p95_index_in_range [of "length (latencies r)"] False
    by (simp add: finalize_def Let_def index_def)
qed

text \<open>
  Claim C1. The summary returned by \<open>_finalize\<close> always exists (the index of the 95th
  percentile is in range) and follows the formulas: the duration is the larger of 0.001 and
  the time since the start; the average is the mean of the latency list, 0 when it is
  empty; the 95th percentile is the sorted latency list at index \<open>floor(0.95 (n - 1))\<close>, 0
  when it is empty; the achieved rate is the total divided by the duration; the peak rate
  is the largest rate of the time series, the achieved rate when the series is empty; the
  success rate is \<open>passed / total * 100\<close>, 0 when the total is 0.
\<close>

theorem finalize_formulas:
  "case finalize start_ts now r of
     Inl e \<Rightarrow> False
   | Inr s \<Rightarrow>
       duration s = max 0.001 (now - start_ts)
     \<and> sum_avgResponseTime s =
         (if latencies r = [] then 0 else sum_list (latencies r) / real (length (latencies r)))
     \<and> percentile95 s =
         (if latencies r = [] then 0
          else sort (latencies r) ! nat \<lfloor>0.95 * (real (length (latencies r)) - 1)\<rfloor>)
     \<and> nat \<lfloor>0.95 * (real (length (latencies r)) - 1)\<rfloor> < max 1 (length (latencies r))
     \<and> sum_requestsPerSecond s = real (total r) / duration s
     \<and> peakRPS s =
         (if timeseries r = [] then sum_requestsPerSecond s
          else Max ((\<lambda>p. real (requestsPerSecond p)) ` set (timeseries r)))
     \<and> successRate s = (if total r = 0 then 0 else real (passed r) / real (total r) * 100)"
proof -
  have idx: "latencies r \<noteq> [] \<Longrightarrow>
      py_int (0.95 * real_of_int (int (length (latencies r)) - 1)) = \<lfloor>0.95 * (real (length (latencies r)) - 1)\<rfloor>"
    using p95_index_floor [of "length (latencies r)"] by simp
  have rng: "nat \<lfloor>0.95 * (real (length (latencies r)) - 1)\<rfloor> < max 1 (length (latencies r))"
  proof (cases "latencies r = []")
    case True then show ?thesis by simp
  next
    case False
    then have "0 < length (latencies r)" by simp
    from p95_index_nat [OF this] show ?thesis by simp
  qed
  have pk: "timeseries r \<noteq> [] \<Longrightarrow>
      py_max_default (map (\<lambda>p. real (requestsPerSecond p)) (timeseries r)) d
        = Max ((\<lambda>p. real (requestsPerSecond p)) ` set (timeseries r))" for d
    using py_max_default_Max [of "map (\<lambda>p. real (requestsPerSecond p)) (timeseries r)" d] by simp
  show ?thesis
    using idx rng pk by (simp add: finalize_Inr)
qed

text \<open>
  Claim C2. After any sequence of completed requests and ticks the counters satisfy
  \<open>passed + failed = total\<close>, and the final summary has
  \<open>totalRequests = successfulRequests + failedRequests\<close>.
\<close>

theorem counters_balance:
  "passed (run_events evs (init cfg cb)) + failed (run_events evs (init cfg cb))
     = total (run_events evs (init cfg cb))
   \<and> (case finalize start_ts now (run_events evs (init cfg cb)) of
        Inl e \<Rightarrow> False
      | Inr s \<Rightarrow> totalRequests s = successfulRequests s + failedRequests s)"
proof -
  have "passed (init cfg cb) + failed (init cfg cb) = total (init cfg cb)"
    by (simp add: init_def)
  from run_events_balance [OF this, of evs] show ?thesis
    by (simp add: finalize_Inr)
qed

section \<open>The concurrency cap\<close>

lemma launch_Some:
  assumes "launch iv pn s = Some s'"
  shows "0 < sem_value s" and "sem_value s' = sem_value s - 1"
    and "in_flight s' = in_flight s @ [sent s]" and "agg s' = agg s"
    and "next_at s' = fst (pace (next_at s) iv pn)"
    and "last_pause s' = snd (pace (next_at s) iv pn)"
  using assms by (auto simp: launch_def Let_def split: if_splits prod.splits)




section \<open>The pacing of launches\<close>

lemma pace_unpaced: "iv \<le> 0 \<Longrightarrow> pace na iv pn = (na, Yield)"
  by (simp add: pace_def)

lemma pace_paced:
  "0 < iv \<Longrightarrow> pace na iv pn = (na + iv, if pn < na + iv then Sleep (na + iv - pn) else NoPause)"
  by (auto simp: pace_def Let_def max_def)

text \<open>
  Claim C7. A round of the scheduler in duration mode, at elapsed time \<open>e\<close>, uses the rate
  \<open>target_tps * (e / ramp_up)\<close> when \<open>ramp_up > 0\<close> and \<open>e < ramp_up\<close>, and \<open>target_tps\<close>
  otherwise. When that rate is not positive the round only yields (\<open>asyncio.sleep(0)\<close>)
  and the next slot does not move; when it is positive the next slot moves by one over the
  rate and the round sleeps until it, if it is still ahead. A round in iteration mode does
  the same with \<open>target_tps\<close> itself, whatever the elapsed time and the ramp-up.
\<close>

theorem pacing_rate:
  assumes "sched_step prm start s (Round wall1 wall2 perf_now) = Some s'"
  shows "(loop_count prm = None \<longrightarrow>
            current_tps prm (wall2 - start) =
              (if 0 < ramp_up prm \<and> wall2 - start < real_of_int (ramp_up prm)
               then target_tps prm * ((wall2 - start) / real_of_int (ramp_up prm))
               else target_tps prm)
          \<and> (current_tps prm (wall2 - start) \<le> 0 \<longrightarrow>
                next_at s' = next_at s \<and> last_pause s' = Yield)
          \<and> (0 < current_tps prm (wall2 - start) \<longrightarrow>
                next_at s' = next_at s + 1 / current_tps prm (wall2 - start)
              \<and> last_pause s' =
                  (if perf_now < next_at s' then Sleep (next_at s' - perf_now) else NoPause)))
       \<and> (loop_count prm \<noteq> None \<longrightarrow>
            (target_tps prm \<le> 0 \<longrightarrow> next_at s' = next_at s \<and> last_pause s' = Yield)
          \<and> (0 < target_tps prm \<longrightarrow>
                next_at s' = next_at s + 1 / target_tps prm
              \<and> last_pause s' =
                  (if perf_now < next_at s' then Sleep (next_at s' - perf_now) else NoPause)))"
proof (cases "loop_count prm")
  case None
  with assms have l: "launch (duration_interval prm (wall2 - start)) perf_now s = Some s'"
    by (auto split: if_splits)
  note ls = launch_Some(5,6) [OF l]
  show ?thesis
  proof (cases "current_tps prm (wall2 - start) \<le> 0")
    case True
    then have "duration_interval prm (wall2 - start) \<le> 0" by (simp add: duration_interval_def)
    from pace_unpaced [OF this] ls True None show ?thesis by (simp add: current_tps_def)
  next
    case False
    then have iv: "duration_interval prm (wall2 - start) = 1 / current_tps prm (wall2 - start)"
      and "0 < duration_interval prm (wall2 - start)"
      by (simp_all add: duration_interval_def)
    from pace_paced [OF this(2)] ls iv False None show ?thesis by (simp add: current_tps_def)
  qed
next
  case (Some n)
  with assms have l: "launch (iteration_interval prm) perf_now s = Some s'"
    by (auto split: if_splits)
  note ls = launch_Some(5,6) [OF l]
  show ?thesis
  proof (cases "target_tps prm \<le> 0")
    case True
    then have "iteration_interval prm \<le> 0" by (simp add: iteration_interval_def)
    from pace_unpaced [OF this] ls True Some show ?thesis by simp
  next
    case False
    then have iv: "iteration_interval prm = 1 / target_tps prm"
      and "0 < iteration_interval prm"
      by (simp_all add: iteration_interval_def)
    from pace_paced [OF this(2)] ls iv False Some show ?thesis by simp
  qed
qed

theorem pacing_rate_witness:
  "(case sched_step \<lparr>duration_seconds = 10, ramp_up = 4, target_tps = 8, loop_count = None, users = 2\<rparr> 100
          (sched_init \<lparr>duration_seconds = 10, ramp_up = 4, target_tps = 8, loop_count = None, users = 2\<rparr> 50
             (init [] None))
          (Round 101 101 50) of
      None \<Rightarrow> False
    | Some s' \<Rightarrow> next_at s' = 50 + 1 / 2 \<and> last_pause s' = Sleep (1 / 2))
   \<and> current_tps \<lparr>duration_seconds = 10, ramp_up = 4, target_tps = 8, loop_count = None, users = 2\<rparr> (101 - 100) = 2"
proof -
  let ?P = "\<lparr>duration_seconds = 10, ramp_up = 4, target_tps = 8, loop_count = None, users = 2\<rparr>"
  let ?S = "sched_init ?P 50 (init [] None)"
  have tps: "current_tps ?P (101 - 100) = 2" by (simp add: current_tps_def)
  obtain s' where st: "sched_step ?P 100 ?S (Round 101 101 50) = Some s'"
    by (simp add: sched_init_def launch_def max_concurrency_def init_def pace_def
          duration_interval_def current_tps_def)
  have na: "next_at ?S = 50" by (simp add: sched_init_def)
  from pacing_rate [OF st] tps na st show ?thesis by simp
qed

section \<open>The request executor\<close>

lemma send_one_built:
  assumes "build_request (config r) = Inr (req, cfg')"
  shows "fst (send_one x r) =
           aggregate (py_int (wall x * 1000)) (fst (perform (result x)))
             (fst (snd (perform (result x)))) (snd (snd (perform (result x))))
             ((t1 x - t0 x) * 1000) (r\<lparr>config := cfg'\<rparr>)"
  using assms by (simp add: send_one_def Let_def split: prod.splits option.splits)

lemma aggregate_on_sample: "on_sample (aggregate ts st b pv el r) = on_sample r"
  by (simp add: aggregate_def Let_def)

lemma send_one_returns:
  assumes "build_request (config r) = Inr (req, cfg')"
    and "\<forall>f sm. on_sample r = Some f \<longrightarrow> f sm = None"
  shows "snd (send_one x r) = None"
  using assms
  by (auto simp: send_one_def Let_def aggregate_on_sample split: prod.splits option.splits)

text \<open>
  Claim C6, as amended. When the request can be built from the configuration and the
  \<open>on_sample\<close> callback, if there is one, returns, \<open>_send_one\<close> returns without an
  exception and records exactly one sample: the total grows by one and the latency is
  appended. A response is counted as passed exactly when \<open>200 \<le> status < 400\<close>; an
  exception of the HTTP call is recorded with status 0, not ok, and its text is the message
  of the entry of the error log (while the log has fewer than 200 entries).
\<close>

theorem send_one_records_one_sample:
  assumes "build_request (config r) = Inr (req, cfg')"
    and "\<forall>f sm. on_sample r = Some f \<longrightarrow> f sm = None"
  shows "snd (send_one x r) = None
       \<and> total (fst (send_one x r)) = total r + 1
       \<and> latencies (fst (send_one x r)) = latencies r @ [(t1 x - t0 x) * 1000]
       \<and> (case result x of
            Response st resp_text \<Rightarrow>
              passed (fst (send_one x r)) = (if 200 \<le> st \<and> st < 400 then passed r + 1 else passed r)
            \<and> failed (fst (send_one x r)) = (if 200 \<le> st \<and> st < 400 then failed r else failed r + 1)
            \<and> codes (fst (send_one x r)) (str_int st) = Some (count_get (codes r) (str_int st) + 1)
            \<and> (length (samples r) < 500 \<longrightarrow>
                 samples (fst (send_one x r)) = samples r @
                   [\<lparr>timestamp = py_int (wall x * 1000), status = st,
                     ok = (200 \<le> st \<and> st < 400), responseTime = (t1 x - t0 x) * 1000\<rparr>])
          | Raised e \<Rightarrow>
              passed (fst (send_one x r)) = passed r
            \<and> failed (fst (send_one x r)) = failed r + 1
            \<and> codes (fst (send_one x r)) (str_int 0) = Some (count_get (codes r) (str_int 0) + 1)
            \<and> (length (samples r) < 500 \<longrightarrow>
                 samples (fst (send_one x r)) = samples r @
                   [\<lparr>timestamp = py_int (wall x * 1000), status = 0,
                     ok = False, responseTime = (t1 x - t0 x) * 1000\<rparr>])
            \<and> (length (errors r) < 200 \<longrightarrow>
                 errors (fst (send_one x r)) = errors r @
                   [\<lparr>time = py_int (wall x * 1000), code = 0, message = e\<rparr>]))"
proof (cases "result x")
  case (Response st resp_text)
  with send_one_returns [OF assms] send_one_built [OF assms(1), of x] show ?thesis
    by (simp add: perform_def aggregate_def Let_def)
next
  case (Raised e)
  with send_one_returns [OF assms] send_one_built [OF assms(1), of x] show ?thesis
    by (simp add: perform_def aggregate_def Let_def)
qed

theorem send_one_records_one_sample_witness:
  "snd (send_one \<lparr>wall = 3 / 2, t0 = 0, result = Raised ''timeout'', t1 = 1 / 4\<rparr>
          (init [(''url'', JStr ''http://h/''), (''method'', JStr ''get'')] None)) = None
   \<and> total (fst (send_one \<lparr>wall = 3 / 2, t0 = 0, result = Raised ''timeout'', t1 = 1 / 4\<rparr>
          (init [(''url'', JStr ''http://h/''), (''method'', JStr ''get'')] None))) = 1
   \<and> failed (fst (send_one \<lparr>wall = 3 / 2, t0 = 0, result = Raised ''timeout'', t1 = 1 / 4\<rparr>
          (init [(''url'', JStr ''http://h/''), (''method'', JStr ''get'')] None))) = 1
   \<and> errors (fst (send_one \<lparr>wall = 3 / 2, t0 = 0, result = Raised ''timeout'', t1 = 1 / 4\<rparr>
          (init [(''url'', JStr ''http://h/''), (''method'', JStr ''get'')] None)))
       = [\<lparr>time = 1500, code = 0, message = ''timeout''\<rparr>]"
proof -
  let ?r = "init [(''url'', JStr ''http://h/''), (''method'', JStr ''get'')] None"
  let ?x = "\<lparr>wall = 3 / 2, t0 = 0, result = Raised ''timeout'', t1 = 1 / 4\<rparr>"
  have b: "build_request (config ?r) =
      Inr (\<lparr>req_method = ''GET'', req_url = JStr ''http://h/'', req_headers = JObj [],
            req_params = JObj [], req_data = NoData, req_json = JNull\<rparr>, config ?r)"
    by (simp add: build_request_def init_def dict_get_def py_or_def upper_char_def lower_char_def)
  have cb: "\<forall>f sm. on_sample ?r = Some f \<longrightarrow> f sm = None" by (simp add: init_def)
  from send_one_records_one_sample [OF b cb, of ?x] show ?thesis
    by (simp add: init_def py_int_def)
qed

text \<open>
  The claim as stated fails: with a method that is not a string (here the JSON number 5),
  \<open>_send_one\<close> raises AttributeError before the HTTP call, and no sample is recorded.
\<close>

theorem send_one_never_raises_counterexample:
  "snd (send_one \<lparr>wall = 0, t0 = 0, result = Response 200 [], t1 = 0\<rparr>
          (init [(''url'', JStr ''http://h/''), (''method'', JNum 5)] None))
     = Some (AttributeError ''upper'')
   \<and> total (fst (send_one \<lparr>wall = 0, t0 = 0, result = Response 200 [], t1 = 0\<rparr>
          (init [(''url'', JStr ''http://h/''), (''method'', JNum 5)] None))) = 0"
  by (simp add: send_one_def build_request_def init_def dict_get_def py_or_def)

section \<open>The per-second buckets\<close>

lemma send_second:
  assumes "0 \<le> w"
  shows "py_int (w * 1000) div 1000 = \<lfloor>w\<rfloor>"
proof -
  have "0 \<le> w * 1000" using assms by simp
  then have "py_int (w * 1000) = \<lfloor>w * 1000\<rfloor>" by (simp only: py_int_def if_True)
  moreover have "\<lfloor>w * 1000\<rfloor> div 1000 = \<lfloor>w * 1000 / real_of_int 1000\<rfloor>"
    by (rule floor_divide_real_eq_div [symmetric]) simp
  ultimately show ?thesis by simp
qed

lemma aggregate_buckets:
  "per_second_count (aggregate ts st b pv el r) =
     (per_second_count r)(ts div 1000 \<mapsto> count_get (per_second_count r) (ts div 1000) + 1)
   \<and> per_second_rt_sum (aggregate ts st b pv el r) =
     (per_second_rt_sum r)(ts div 1000 \<mapsto> sum_get (per_second_rt_sum r) (ts div 1000) + el)
   \<and> timeseries (aggregate ts st b pv el r) = timeseries r"
  by (simp add: aggregate_def Let_def)

lemma aggregate_latencies:
  "latencies (aggregate ts st b pv el r) = latencies r @ [el]"
  by (simp add: aggregate_def Let_def)

lemma send_one_recorded:
  assumes "build_request (config r) = Inr (req, cfg')"
  shows "latencies (fst (send_one x r)) = latencies r @ [elapsed_of x]"
    and "count_get (per_second_count (fst (send_one x r))) k =
           count_get (per_second_count r) k + (if bucket_of x = k then 1 else 0)"
    and "sum_get (per_second_rt_sum (fst (send_one x r))) k =
           sum_get (per_second_rt_sum r) k + (if bucket_of x = k then elapsed_of x else 0)"
  using send_one_built [OF assms, of x]
  by (simp_all add: aggregate_latencies aggregate_buckets bucket_of_def elapsed_of_def
        count_get_def sum_get_def)

lemma send_one_timeseries: "timeseries (fst (send_one x r)) = timeseries r"
  by (auto simp: send_one_def aggregate_def Let_def split: sum.splits prod.splits option.splits)

lemma send_one_not_recorded:
  assumes "build_request (config r) = Inl err"
  shows "fst (send_one x r) = r"
  using assms by (simp add: send_one_def)

lemma tick_keeps:
  "latencies (tick now r) = latencies r"
  "per_second_count (tick now r) = per_second_count r"
  "per_second_rt_sum (tick now r) = per_second_rt_sum r"
  by (simp_all add: tick_def Let_def)

lemma run_events_recorded:
  "latencies (run_events evs r) = latencies r @ map elapsed_of (recorded r evs)
   \<and> count_get (per_second_count (run_events evs r)) k =
       count_get (per_second_count r) k + length (filter (\<lambda>x. bucket_of x = k) (recorded r evs))
   \<and> sum_get (per_second_rt_sum (run_events evs r)) k =
       sum_get (per_second_rt_sum r) k
         + sum_list (map elapsed_of (filter (\<lambda>x. bucket_of x = k) (recorded r evs)))"
proof (induction evs arbitrary: r)
  case Nil
  show ?case by (simp add: run_events_def)
next
  case (Cons e evs)
  have unf: "run_events (e' # evs) r = run_events evs (apply_event r e')" for e'
    by (simp add: run_events_def)
  show ?case
  proof (cases e)
    case (Tick now)
    from Cons.IH [of "tick now r"] show ?thesis
      unfolding Tick unf by (simp add: tick_keeps)
  next
    case (Sample x)
    show ?thesis
    proof (cases "build_request (config r)")
      case (Inl err)
      from Cons.IH [of r] send_one_not_recorded [OF Inl, of x] show ?thesis
        unfolding Sample unf by (simp add: Inl)
    next
      case (Inr p)
      obtain req cfg' where p: "p = (req, cfg')" by (cases p)
      note so = send_one_recorded [of r req cfg' x, unfolded p [symmetric], OF Inr]
      from Cons.IH [of "fst (send_one x r)"] show ?thesis
        unfolding Sample unf by (simp add: Inr so)
    qed
  qed
qed

lemma init_buckets:
  "latencies (init cfg cb) = []"
  "count_get (per_second_count (init cfg cb)) k = 0"
  "sum_get (per_second_rt_sum (init cfg cb)) k = 0"
  by (simp_all add: init_def count_get_def sum_get_def)

lemma bucket_of_interval:
  assumes "0 \<le> wall x"
  shows "bucket_of x = k \<longleftrightarrow> of_int k \<le> wall x \<and> wall x < of_int k + 1"
  using send_second [OF assms] by (simp add: bucket_of_def floor_eq_iff)

text \<open>
  Claim C4, as amended. For every recorded sample, the key of the bucket updated in
  \<open>count[sec]\<close> and \<open>latency_sum[sec]\<close> is \<open>ts_ms // 1000\<close>, where \<open>ts_ms\<close> is the wall
  clock read before the request is sent: the second \<open>[k, k+1)\<close> that contains the send
  timestamp. So, at every moment of a run, the bucket of second \<open>k\<close> holds the number and
  the summed latency of the samples recorded so far whose send timestamp fell in
  \<open>[k, k+1)\<close>. A tick that runs at wall-clock time \<open>now\<close> appends the entry of the second
  \<open>int(now)\<close> itself, with the number and the mean latency of the samples recorded so far
  whose send timestamp fell in that second.
\<close>

theorem bucket_is_send_second:
  "latencies (run_events evs (init cfg cb)) = map elapsed_of (recorded (init cfg cb) evs)
   \<and> count_get (per_second_count (run_events evs (init cfg cb))) k =
       length (filter (\<lambda>x. bucket_of x = k) (recorded (init cfg cb) evs))
   \<and> sum_get (per_second_rt_sum (run_events evs (init cfg cb))) k =
       sum_list (map elapsed_of (filter (\<lambda>x. bucket_of x = k) (recorded (init cfg cb) evs)))
   \<and> (\<forall>x. 0 \<le> wall x \<longrightarrow>
         (bucket_of x = k \<longleftrightarrow> of_int k \<le> wall x \<and> wall x < of_int k + 1))
   \<and> (\<forall>x req cfg'. build_request (config (run_events evs (init cfg cb))) = Inr (req, cfg') \<longrightarrow>
         per_second_count (fst (send_one x (run_events evs (init cfg cb)))) =
           (per_second_count (run_events evs (init cfg cb)))(bucket_of x \<mapsto>
              count_get (per_second_count (run_events evs (init cfg cb))) (bucket_of x) + 1)
       \<and> per_second_rt_sum (fst (send_one x (run_events evs (init cfg cb)))) =
           (per_second_rt_sum (run_events evs (init cfg cb)))(bucket_of x \<mapsto>
              sum_get (per_second_rt_sum (run_events evs (init cfg cb))) (bucket_of x) + elapsed_of x)
       \<and> recorded (init cfg cb) (evs @ [Sample x]) = recorded (init cfg cb) evs @ [x])
   \<and> timeseries (run_events (evs @ [Tick now]) (init cfg cb)) =
       timeseries (run_events evs (init cfg cb)) @
         [\<lparr>second = py_int now,
           requestsPerSecond =
             length (filter (\<lambda>x. bucket_of x = py_int now) (recorded (init cfg cb) evs)),
           avgResponseTime =
             (if filter (\<lambda>x. bucket_of x = py_int now) (recorded (init cfg cb) evs) \<noteq> []
              then sum_list (map elapsed_of
                     (filter (\<lambda>x. bucket_of x = py_int now) (recorded (init cfg cb) evs)))
                   / real (length (filter (\<lambda>x. bucket_of x = py_int now) (recorded (init cfg cb) evs)))
              else 0)\<rparr>]"
proof -
  let ?r = "init cfg cb"
  let ?R = "run_events evs ?r"
  have 1: "latencies ?R = map elapsed_of (recorded ?r evs)"
    using run_events_recorded [of evs ?r k] by (simp add: init_buckets)
  have 2: "count_get (per_second_count ?R) j = length (filter (\<lambda>x. bucket_of x = j) (recorded ?r evs))" for j
    using run_events_recorded [of evs ?r j] by (simp add: init_buckets)
  have 3: "sum_get (per_second_rt_sum ?R) j =
      sum_list (map elapsed_of (filter (\<lambda>x. bucket_of x = j) (recorded ?r evs)))" for j
    using run_events_recorded [of evs ?r j] by (simp add: init_buckets)
  have 4: "\<forall>x. 0 \<le> wall x \<longrightarrow>
         (bucket_of x = k \<longleftrightarrow> of_int k \<le> wall x \<and> wall x < of_int k + 1)"
    using bucket_of_interval by blast
  have app: "recorded r0 (es @ [Sample x]) =
      recorded r0 es @ (case build_request (config (run_events es r0)) of Inl e \<Rightarrow> [] | Inr p \<Rightarrow> [x])"
    for r0 es x
  proof (induction es arbitrary: r0)
    case Nil
    show ?case by (simp add: run_events_def)
  next
    case (Cons e es)
    show ?case
    proof (cases e)
      case (Sample y)
      with Cons.IH [of "fst (send_one y r0)"] show ?thesis by (simp add: run_events_def)
    next
      case (Tick t)
      with Cons.IH [of "tick t r0"] show ?thesis by (simp add: run_events_def)
    qed
  qed
  have 5: "\<forall>x req cfg'. build_request (config ?R) = Inr (req, cfg') \<longrightarrow>
         per_second_count (fst (send_one x ?R)) =
           (per_second_count ?R)(bucket_of x \<mapsto> count_get (per_second_count ?R) (bucket_of x) + 1)
       \<and> per_second_rt_sum (fst (send_one x ?R)) =
           (per_second_rt_sum ?R)(bucket_of x \<mapsto> sum_get (per_second_rt_sum ?R) (bucket_of x) + elapsed_of x)
       \<and> recorded ?r (evs @ [Sample x]) = recorded ?r evs @ [x]"
  proof (intro allI impI)
    fix x req cfg'
    assume b: "build_request (config ?R) = Inr (req, cfg')"
    from send_one_built [OF b, of x] app [of ?r evs x] b
    show "per_second_count (fst (send_one x ?R)) =
           (per_second_count ?R)(bucket_of x \<mapsto> count_get (per_second_count ?R) (bucket_of x) + 1)
       \<and> per_second_rt_sum (fst (send_one x ?R)) =
           (per_second_rt_sum ?R)(bucket_of x \<mapsto> sum_get (per_second_rt_sum ?R) (bucket_of x) + elapsed_of x)
       \<and> recorded ?r (evs @ [Sample x]) = recorded ?r evs @ [x]"
      by (simp add: aggregate_buckets bucket_of_def elapsed_of_def)
  qed
  have 6: "timeseries (run_events (evs @ [Tick now]) ?r) =
       timeseries ?R @
         [\<lparr>second = py_int now,
           requestsPerSecond = length (filter (\<lambda>x. bucket_of x = py_int now) (recorded ?r evs)),
           avgResponseTime =
             (if filter (\<lambda>x. bucket_of x = py_int now) (recorded ?r evs) \<noteq> []
              then sum_list (map elapsed_of (filter (\<lambda>x. bucket_of x = py_int now) (recorded ?r evs)))
                   / real (length (filter (\<lambda>x. bucket_of x = py_int now) (recorded ?r evs)))
              else 0)\<rparr>]"
  proof -
    have "run_events (evs @ [Tick now]) ?r = tick now ?R" by (simp add: run_events_def)
    then show ?thesis
      unfolding tick_def Let_def 2 3 by simp
  qed
  from 1 2 [of k] 3 [of k] 4 5 6 show ?thesis by (intro conjI)
qed

theorem bucket_is_send_second_witness:
  "timeseries (run_events
       [Sample \<lparr>wall = 19 / 10, t0 = 10, result = Response 200 [], t1 = 51 / 5\<rparr>,
        Sample \<lparr>wall = 21 / 10, t0 = 10, result = Response 200 [], t1 = 101 / 10\<rparr>,
        Tick (5 / 2)] (init [] None))
     = [\<lparr>second = 2, requestsPerSecond = 1, avgResponseTime = 100\<rparr>]
   \<and> count_get (per_second_count (run_events
       [Sample \<lparr>wall = 19 / 10, t0 = 10, result = Response 200 [], t1 = 51 / 5\<rparr>,
        Sample \<lparr>wall = 21 / 10, t0 = 10, result = Response 200 [], t1 = 101 / 10\<rparr>]
       (init [] None))) 1 = 1
   \<and> bucket_of \<lparr>wall = 19 / 10, t0 = 10, result = Response 200 [], t1 = 51 / 5\<rparr> = 1"
proof -
  let ?r = "init [] None"
  let ?x = "\<lparr>wall = 19 / 10, t0 = 10, result = Response 200 [], t1 = 51 / 5\<rparr>"
  let ?y = "\<lparr>wall = 21 / 10, t0 = 10, result = Response 200 [], t1 = 101 / 10\<rparr>"
  have b: "build_request [] =
      Inr (\<lparr>req_method = ''GET'', req_url = JNull, req_headers = JObj [],
            req_params = JObj [], req_data = NoData, req_json = JNull\<rparr>, [])"
    by (simp add: build_request_def dict_get_def py_or_def upper_char_def lower_char_def)
  have c0: "config ?r = []" by (simp add: init_def)
  have cx: "config (fst (send_one x ?r)) = []" for x
    using send_one_built [of ?r _ "[]" x] b c0 by (simp add: aggregate_def Let_def)
  have rec: "recorded ?r [Sample ?x, Sample ?y] = [?x, ?y]"
    by (simp add: b c0 cx)
  have bx: "bucket_of ?x = 1" and "bucket_of ?y = 2"
    by (simp_all add: bucket_of_def py_int_def)
  have ey: "elapsed_of ?y = 100" by (simp add: elapsed_of_def)
  have n: "py_int (5 / 2) = 2" by (simp add: py_int_def)
  have t0: "timeseries (run_events [Sample ?x, Sample ?y] ?r) = []"
    by (simp add: run_events_def send_one_timeseries) (simp add: init_def)
  from bucket_is_send_second [of "[Sample ?x, Sample ?y]" "[]" None 1 "5 / 2"]
  show ?thesis
    unfolding rec n t0 using bx \<open>bucket_of ?y = 2\<close> ey by simp
qed

text \<open>
  The claim as stated fails. A request sent at 1.9 s whose outcome is observed 0.2 s later,
  at 2.1 s, is counted in bucket 1, not in bucket 2. A request sent at 2.1 s and completed
  at 2.2 s is reported by the tick that runs at 2.5 s, in second 2, though its completion
  is not in the interval from 1 to 2.
\<close>

theorem bucket_completion_counterexample:
  "\<lfloor>completed_at \<lparr>wall = 19 / 10, t0 = 10, result = Response 200 [], t1 = 51 / 5\<rparr>\<rfloor> = 2
   \<and> per_second_count (fst (send_one \<lparr>wall = 19 / 10, t0 = 10, result = Response 200 [], t1 = 51 / 5\<rparr>
        (init [] None))) 2 = None
   \<and> per_second_count (fst (send_one \<lparr>wall = 19 / 10, t0 = 10, result = Response 200 [], t1 = 51 / 5\<rparr>
        (init [] None))) 1 = Some 1
   \<and> completed_at \<lparr>wall = 21 / 10, t0 = 10, result = Response 200 [], t1 = 101 / 10\<rparr> = 22 / 10
   \<and> timeseries (tick (5 / 2) (fst (send_one \<lparr>wall = 21 / 10, t0 = 10, result = Response 200 [], t1 = 101 / 10\<rparr>
        (init [] None)))) = [\<lparr>second = 2, requestsPerSecond = 1, avgResponseTime = 100\<rparr>]"
proof -
  let ?r = "init [] None"
  have b: "build_request (config ?r) =
      Inr (\<lparr>req_method = ''GET'', req_url = JNull, req_headers = JObj [],
            req_params = JObj [], req_data = NoData, req_json = JNull\<rparr>, config ?r)"
    by (simp add: build_request_def init_def dict_get_def py_or_def upper_char_def lower_char_def)
  have n: "py_int (5 / 2) = 2" by (simp add: py_int_def)
  have k1: "py_int 1900 div 1000 = 1" by (simp add: py_int_def)
  have k2: "py_int 2100 div 1000 = 2" by (simp add: py_int_def)
  have c: "\<lfloor>completed_at \<lparr>wall = 19 / 10, t0 = 10, result = Response 200 [], t1 = 51 / 5\<rparr>\<rfloor> = 2"
    by (simp add: completed_at_def)
  have c2: "completed_at \<lparr>wall = 21 / 10, t0 = 10, result = Response 200 [], t1 = 101 / 10\<rparr> = 22 / 10"
    by (simp add: completed_at_def)
  show ?thesis
    using c c2 send_one_built [OF b]
    by (simp add: aggregate_buckets tick_def Let_def n k1 k2 init_def count_get_def sum_get_def)
qed

section \<open>The release of permits\<close>






section \<open>The time series and the total\<close>













section \<open>The configuration during a run\<close>

text \<open>
  Claim C9. Executing a request must leave the configuration, its \<open>headers\<close> dictionary
  included, as it was at the start. The code does not: for a POST with a JSON body and a
  non-empty \<open>headers\<close> dictionary without \<open>Content-Type\<close>, the first call of \<open>_send_one\<close>
  writes \<open>Content-Type: application/json\<close> into the dictionary stored in the configuration
  (line 62), whatever the outcome of the HTTP call. The sibling path of \<open>_runner\<close> that
  adds the \<open>Authorization\<close> header copies the dictionary first (line 133).
\<close>

theorem send_one_mutates_config:
  "config (fst (send_one x
      (init [(''url'', JStr ''http://h/''), (''method'', JStr ''POST''),
             (''headers'', JObj [(''Accept'', JStr ''*/*'')]),
             (''body'', JObj [(''a'', JNum 1)]), (''bodyType'', JStr ''json'')] None)))
     = [(''url'', JStr ''http://h/''), (''method'', JStr ''POST''),
        (''headers'', JObj [(''Accept'', JStr ''*/*''),
                            (''Content-Type'', JStr ''application/json'')]),
        (''body'', JObj [(''a'', JNum 1)]), (''bodyType'', JStr ''json'')]
   \<and> config (fst (send_one x
      (init [(''url'', JStr ''http://h/''), (''method'', JStr ''POST''),
             (''headers'', JObj [(''Accept'', JStr ''*/*'')]),
             (''body'', JObj [(''a'', JNum 1)]), (''bodyType'', JStr ''json'')] None)))
     \<noteq> config (init [(''url'', JStr ''http://h/''), (''method'', JStr ''POST''),
             (''headers'', JObj [(''Accept'', JStr ''*/*'')]),
             (''body'', JObj [(''a'', JNum 1)]), (''bodyType'', JStr ''json'')] None)"
proof -
  let ?cfg = "[(''url'', JStr ''http://h/''), (''method'', JStr ''POST''),
             (''headers'', JObj [(''Accept'', JStr ''*/*'')]),
             (''body'', JObj [(''a'', JNum 1)]), (''bodyType'', JStr ''json'')]"
  let ?cfg' = "[(''url'', JStr ''http://h/''), (''method'', JStr ''POST''),
        (''headers'', JObj [(''Accept'', JStr ''*/*''),
                            (''Content-Type'', JStr ''application/json'')]),
        (''body'', JObj [(''a'', JNum 1)]), (''bodyType'', JStr ''json'')]"
  have b: "build_request (config (init ?cfg None)) =
      Inr (\<lparr>req_method = ''POST'', req_url = JStr ''http://h/'',
            req_headers = JObj [(''Accept'', JStr ''*/*''),
                                (''Content-Type'', JStr ''application/json'')],
            req_params = JObj [], req_data = NoData, req_json = JObj [(''a'', JNum 1)]\<rparr>, ?cfg')"
    by (simp add: build_request_def init_def dict_get_def py_or_def upper_char_def lower_char_def
          Let_def)
  have c: "config (aggregate ts st b pv el r) = config r" for ts st b pv el r
    by (simp add: aggregate_def Let_def)
  from send_one_built [OF b, of x] show ?thesis by (simp add: c init_def)
qed

section \<open>What the start operation validates\<close>

lemma start_test_http:
  assumes "\<forall>f\<in>set required_fields. map_of d f \<noteq> None"
    and "map_of d ''type'' = Some (JStr ''HTTP Test'')"
  shows "start_test env now (JObj d) reg =
           (Started (make_test_id now) HttpStarted (make_test_config (make_test_id now) d), reg,
            Some (HttpThread (make_test_id now) (make_http_cfg d)
                    (make_test_config (make_test_id now) d)))"
proof -
  have ne: "d \<noteq> []" using assms(2) by auto
  have f: "find (\<lambda>field. map_of d field = None) required_fields = None"
    using assms(1) by (simp add: find_None_iff)
  show ?thesis
    using ne f assms(2) by (simp add: start_test_def Let_def dict_get_default_def)
qed

lemma start_test_missing:
  assumes "d \<noteq> []"
    and "find (\<lambda>f. map_of d f = None) required_fields = Some field"
  shows "start_test env now (JObj d) reg = (Refused 400 (''Missing required field: '' @ field), reg, None)"
  using assms by (simp add: start_test_def Let_def)

lemma start_test_400:
  assumes "fst (start_test env now data reg) = Refused 400 e"
  shows "(\<not> truthy data \<and> e = ''No test configuration provided'')
       \<or> (\<exists>d f. data = JObj d \<and> f \<in> set required_fields \<and> map_of d f = None
              \<and> e = ''Missing required field: '' @ f)"
proof (cases "truthy data")
  case False
  with assms show ?thesis by (simp add: start_test_def)
next
  case True
  show ?thesis
  proof (cases data)
    case (JObj d)
    show ?thesis
    proof (cases "find (\<lambda>f. map_of d f = None) required_fields")
      case None
      with assms True JObj show ?thesis
        by (auto simp: start_test_def Let_def run_jmeter_test_def
            split: if_splits prod.splits sum.splits jm_env.splits option.splits)
    next
      case (Some f)
      then have "f \<in> set required_fields \<and> map_of d f = None"
        by (auto simp: find_Some_iff)
      with assms True JObj Some show ?thesis
        by (auto simp: start_test_def Let_def)
    qed
  qed (use assms True in \<open>simp_all add: start_test_def\<close>)
qed

text \<open>
  Claim C8, as amended. The start operation refuses a request with status 400, changing
  nothing in the registry and starting no runner, in two cases and no other: when the body
  is missing or empty (\<open>No test configuration provided\<close>), and when it lacks one of the
  fields \<open>type\<close>, \<open>url\<close>, \<open>users\<close>, \<open>duration\<close> (\<open>Missing required field:\<close> followed by
  the first one that is missing). No value is checked: a request of type \<open>HTTP Test\<close>
  that has the four fields is accepted, and its runner is started, whatever the values of
  \<open>users\<close>, \<open>duration\<close>, \<open>rampUp\<close>, \<open>loopCount\<close>, \<open>url\<close>, \<open>method\<close>, \<open>bodyType\<close>, \<open>body\<close>
  and \<open>auth\<close> are.
\<close>

theorem start_test_checks_presence_only:
  "(\<not> truthy data \<longrightarrow>
      start_test env now data reg = (Refused 400 ''No test configuration provided'', reg, None))
   \<and> (d \<noteq> [] \<longrightarrow> find (\<lambda>f. map_of d f = None) required_fields = Some field \<longrightarrow>
        start_test env now (JObj d) reg =
          (Refused 400 (''Missing required field: '' @ field), reg, None))
   \<and> ((\<forall>f\<in>set required_fields. map_of d f \<noteq> None) \<longrightarrow>
        map_of d ''type'' = Some (JStr ''HTTP Test'') \<longrightarrow>
        start_test env now (JObj d) reg =
          (Started (make_test_id now) HttpStarted (make_test_config (make_test_id now) d), reg,
           Some (HttpThread (make_test_id now) (make_http_cfg d)
                   (make_test_config (make_test_id now) d))))
   \<and> (fst (start_test env now data reg) = Refused 400 e \<longrightarrow>
        (\<not> truthy data \<and> e = ''No test configuration provided'')
      \<or> (\<exists>d' f. data = JObj d' \<and> f \<in> set required_fields \<and> map_of d' f = None
              \<and> e = ''Missing required field: '' @ f))"
proof -
  have 1: "\<not> truthy data \<longrightarrow>
      start_test env now data reg = (Refused 400 ''No test configuration provided'', reg, None)"
    by (simp add: start_test_def)
  from 1 start_test_missing [of d field env now reg] start_test_http [of d env now reg]
    start_test_400 [of env now data reg e]
  show ?thesis by blast
qed

theorem start_test_checks_presence_only_witness:
  "start_test Cloud 1700000000 (JObj []) (map_of []) =
     (Refused 400 ''No test configuration provided'', map_of [], None)
   \<and> start_test Cloud 1700000000
       (JObj [(''type'', JStr ''HTTP Test''), (''url'', JStr ''http://h/''), (''duration'', JNum 10)])
       (map_of []) = (Refused 400 ''Missing required field: users'', map_of [], None)
   \<and> fst (start_test Cloud 1700000000
       (JObj [(''type'', JStr ''HTTP Test''), (''url'', JStr ''http://h/''),
              (''users'', JNum 5), (''duration'', JNum 10)]) (map_of []))
     = Started (make_test_id 1700000000) HttpStarted
         [(''id'', JStr (make_test_id 1700000000)), (''type'', JStr ''HTTP Test''),
          (''url'', JStr ''http://h/''), (''users'', JNum 5), (''duration'', JNum 10),
          (''ramp_up'', JNum 10), (''think_time'', JNum 1000)]"
proof -
  let ?d1 = "[(''type'', JStr ''HTTP Test''), (''url'', JStr ''http://h/''), (''duration'', JNum 10)]"
  let ?d2 = "[(''type'', JStr ''HTTP Test''), (''url'', JStr ''http://h/''),
              (''users'', JNum 5), (''duration'', JNum 10)]"
  have a: "\<not> truthy (JObj [])" by simp
  have b: "?d1 \<noteq> []" "find (\<lambda>f. map_of ?d1 f = None) required_fields = Some ''users''"
    by (simp_all add: required_fields_def)
  have c: "\<forall>f\<in>set required_fields. map_of ?d2 f \<noteq> None"
    "map_of ?d2 ''type'' = Some (JStr ''HTTP Test'')"
    by (simp_all add: required_fields_def)
  have cfg: "make_test_config tid ?d2 =
         [(''id'', JStr tid), (''type'', JStr ''HTTP Test''),
          (''url'', JStr ''http://h/''), (''users'', JNum 5), (''duration'', JNum 10),
          (''ramp_up'', JNum 10), (''think_time'', JNum 1000)]" for tid
    by (simp add: make_test_config_def copy_if_present_def optional_fields_def dict_get_default_def)
  from start_test_checks_presence_only [of "JObj []" Cloud 1700000000 "map_of []" ?d1 "''users''"] a b
    start_test_checks_presence_only [of "JObj []" Cloud 1700000000 "map_of []" ?d2] c cfg
  show ?thesis by simp
qed

text \<open>
  The claim as stated fails: a request of type \<open>HTTP Test\<close> with no user, a ramp-up
  longer than the duration, both a duration and a loop count, a URL without a scheme, an
  unknown method, a form body that is not a mapping and basic authentication without a
  password is accepted, and its runner is started.
\<close>

theorem start_test_accepts_invalid_counterexample:
  "fst (start_test Cloud 1700000000
     (JObj [(''type'', JStr ''HTTP Test''), (''url'', JStr ''no scheme''),
            (''users'', JNum 0), (''duration'', JNum 10), (''rampUp'', JNum 20),
            (''loopCount'', JNum 3), (''method'', JStr ''FETCH''),
            (''bodyType'', JStr ''form''), (''body'', JStr ''a=1''),
            (''auth'', JObj [(''type'', JStr ''basic''), (''username'', JStr ''u'')])])
     (map_of []))
   = Started ''test_1700000000'' HttpStarted
       [(''id'', JStr ''test_1700000000''), (''type'', JStr ''HTTP Test''),
        (''url'', JStr ''no scheme''), (''users'', JNum 0), (''duration'', JNum 10),
        (''ramp_up'', JNum 20), (''think_time'', JNum 1000),
        (''auth'', JObj [(''type'', JStr ''basic''), (''username'', JStr ''u'')])]
   \<and> snd (snd (start_test Cloud 1700000000
     (JObj [(''type'', JStr ''HTTP Test''), (''url'', JStr ''no scheme''),
            (''users'', JNum 0), (''duration'', JNum 10), (''rampUp'', JNum 20),
            (''loopCount'', JNum 3), (''method'', JStr ''FETCH''),
            (''bodyType'', JStr ''form''), (''body'', JStr ''a=1''),
            (''auth'', JObj [(''type'', JStr ''basic''), (''username'', JStr ''u'')])])
     (map_of [])))
   = Some (HttpThread ''test_1700000000''
       [(''url'', JStr ''no scheme''), (''method'', JStr ''FETCH''), (''headers'', JNull),
        (''params'', JNull), (''body'', JStr ''a=1''), (''bodyType'', JStr ''form''),
        (''auth'', JObj [(''type'', JStr ''basic''), (''username'', JStr ''u'')]),
        (''users'', JNum 0), (''target_tps'', JNull), (''duration_seconds'', JNum 10),
        (''ramp_up_seconds'', JNum 20), (''loop_count'', JNum 3)]
       [(''id'', JStr ''test_1700000000''), (''type'', JStr ''HTTP Test''),
        (''url'', JStr ''no scheme''), (''users'', JNum 0), (''duration'', JNum 10),
        (''ramp_up'', JNum 20), (''think_time'', JNum 1000),
        (''auth'', JObj [(''type'', JStr ''basic''), (''username'', JStr ''u'')])])"
proof -
  have tid: "make_test_id 1700000000 = ''test_1700000000''"
    by (simp add: make_test_id_def py_int_def str_int_def str_nat.simps)
  show ?thesis
    by (simp add: start_test_def Let_def required_fields_def dict_get_default_def tid
          make_test_config_def copy_if_present_def optional_fields_def make_http_cfg_def
          dict_get_def py_or_def)
qed

section \<open>The record of an HTTP test\<close>

lemma start_test_registry:
  assumes "k \<noteq> make_test_id now"
  shows "fst (snd (start_test env now data reg)) k = reg k"
proof (cases data)
  case (JObj d)
  show ?thesis
    using assms unfolding JObj
    by (auto simp: start_test_def Let_def run_jmeter_test_def
        split: option.splits jm_env.splits prod.splits sum.splits)
qed (simp_all add: start_test_def)

lemma stop_test_registry:
  assumes "reg k = None"
  shows "(case stop_test reg i of Inl e \<Rightarrow> reg | Inr (reply, reg') \<Rightarrow> reg') k = None"
  using assms by (auto simp: stop_test_def split: option.splits)

lemma srv_step_absent:
  assumes "reg tid = None" and "creates e \<noteq> Some tid"
  shows "srv_step reg e tid = None"
proof (cases e)
  case (StartRequest env now data)
  with assms start_test_registry [of tid now env data reg] show ?thesis by simp
next
  case (StatusRequest i)
  with assms show ?thesis by simp
next
  case (StopRequest i)
  with assms stop_test_registry [of reg tid i] show ?thesis by simp
next
  case (HttpFinished i c t res)
  with assms show ?thesis by (simp add: run_http_finished_def)
next
  case (MonitorFinished i t res)
  with assms show ?thesis by (auto simp: monitor_finished_def split: option.splits)
qed

lemma srv_run_absent:
  "reg tid = None \<Longrightarrow> \<forall>e\<in>set evs. creates e \<noteq> Some tid \<Longrightarrow> foldl srv_step reg evs tid = None"
proof (induction evs arbitrary: reg)
  case Nil
  then show ?case by simp
next
  case (Cons e evs)
  from Cons.prems have s: "srv_step reg e tid = None" by (intro srv_step_absent) simp_all
  from Cons.IH [of "srv_step reg e"] s Cons.prems(2) show ?case by simp
qed

text \<open>
  Claim C10, as amended. A start request of type \<open>HTTP Test\<close> leaves the registry as it
  is: no record is created when the test is accepted. While the test runs, as long as
  neither another start request that yields the same id nor the end of a thread with that
  id occurs, \<open>get_test_status\<close> of its id returns the not-found object and \<open>stop_test\<close>
  of its id returns the failure \<open>Test not found or not running\<close> and changes nothing. The
  record is created by the end of the runner's thread, with the status \<open>completed\<close> and
  the results.
\<close>

theorem http_test_registered_at_end:
  assumes "\<forall>f\<in>set required_fields. map_of d f \<noteq> None"
    and "map_of d ''type'' = Some (JStr ''HTTP Test'')"
    and "reg (make_test_id now) = None"
    and "\<forall>e\<in>set evs. creates e \<noteq> Some (make_test_id now)"
  shows "start_test env now (JObj d) reg =
           (Started (make_test_id now) HttpStarted (make_test_config (make_test_id now) d), reg,
            Some (HttpThread (make_test_id now) (make_http_cfg d)
                    (make_test_config (make_test_id now) d)))
       \<and> get_test_status (foldl srv_step reg evs) (make_test_id now) = NotFound
       \<and> stop_test (foldl srv_step reg evs) (make_test_id now) =
           Inr (StopFailed ''Test not found or not running'', foldl srv_step reg evs)
       \<and> get_test_status
           (srv_step (foldl srv_step reg evs)
              (HttpFinished (make_test_id now) (make_test_config (make_test_id now) d) end_time res))
           (make_test_id now) =
           Found \<lparr>sd_testId = make_test_id now, sd_status = ''completed'',
                  sd_startTime = end_time, sd_config = make_test_config (make_test_id now) d,
                  sd_endTime = None, sd_results = Some (HttpResults res), sd_error = None\<rparr>"
proof -
  from srv_run_absent [of reg "make_test_id now" evs] assms(3,4)
  have a: "foldl srv_step reg evs (make_test_id now) = None" by blast
  from start_test_http [OF assms(1,2)] a show ?thesis
    by (simp add: get_test_status_def stop_test_def run_http_finished_def)
qed

theorem http_test_registered_at_end_witness:
  "fst (snd (start_test Cloud 1700000000
       (JObj [(''type'', JStr ''HTTP Test''), (''url'', JStr ''http://h/''),
              (''users'', JNum 5), (''duration'', JNum 10)]) (map_of [])))
     (make_test_id 1700000000) = None
   \<and> get_test_status
       (foldl srv_step (map_of [])
          [StatusRequest (make_test_id 1700000000), StopRequest (make_test_id 1700000000),
           StartRequest Cloud 1700000001
             (JObj [(''type'', JStr ''Load Test''), (''url'', JStr ''http://h/''),
                    (''users'', JNum 5), (''duration'', JNum 10)]),
           MonitorFinished (make_test_id 1700000001) 1700000012 None])
       (make_test_id 1700000000) = NotFound
   \<and> stop_test
       (foldl srv_step (map_of [])
          [StatusRequest (make_test_id 1700000000), StopRequest (make_test_id 1700000000),
           StartRequest Cloud 1700000001
             (JObj [(''type'', JStr ''Load Test''), (''url'', JStr ''http://h/''),
                    (''users'', JNum 5), (''duration'', JNum 10)]),
           MonitorFinished (make_test_id 1700000001) 1700000012 None])
       (make_test_id 1700000000) =
     Inr (StopFailed ''Test not found or not running'',
          foldl srv_step (map_of [])
          [StatusRequest (make_test_id 1700000000), StopRequest (make_test_id 1700000000),
           StartRequest Cloud 1700000001
             (JObj [(''type'', JStr ''Load Test''), (''url'', JStr ''http://h/''),
                    (''users'', JNum 5), (''duration'', JNum 10)]),
           MonitorFinished (make_test_id 1700000001) 1700000012 None])"
proof -
  let ?d = "[(''type'', JStr ''HTTP Test''), (''url'', JStr ''http://h/''),
              (''users'', JNum 5), (''duration'', JNum 10)]"
  let ?evs = "[StatusRequest (make_test_id 1700000000), StopRequest (make_test_id 1700000000),
           StartRequest Cloud 1700000001
             (JObj [(''type'', JStr ''Load Test''), (''url'', JStr ''http://h/''),
                    (''users'', JNum 5), (''duration'', JNum 10)]),
           MonitorFinished (make_test_id 1700000001) 1700000012 None]"
  have c: "\<forall>f\<in>set required_fields. map_of ?d f \<noteq> None"
    "map_of ?d ''type'' = Some (JStr ''HTTP Test'')"
    by (simp_all add: required_fields_def)
  have fresh: "map_of [] (make_test_id 1700000000) = (None :: test_info option)" by simp
  have ids: "make_test_id 1700000001 \<noteq> make_test_id 1700000000"
    by (simp add: make_test_id_def py_int_def str_int_def str_nat.simps)
  have others: "\<forall>e\<in>set ?evs. creates e \<noteq> Some (make_test_id 1700000000)"
    using ids by simp
  from http_test_registered_at_end
         [where d = ?d and reg = "map_of []" and now = 1700000000 and evs = ?evs and env = Cloud]
       c fresh others
  show ?thesis by simp
qed

text \<open>
  The claim as stated fails. The id is \<open>test_\<close> followed by the second of the start
  request, so a request of another type that arrives within the same second gets the same
  id and creates its record: while the HTTP test runs, the status of its id is then
  \<open>running\<close>, and a stop request for it succeeds.
\<close>

theorem http_test_id_shared_counterexample:
  "fst (start_test (Local None) 1700000000
       (JObj [(''type'', JStr ''HTTP Test''), (''url'', JStr ''http://h/''),
              (''users'', JNum 5), (''duration'', JNum 10)]) (map_of []))
     = Started ''test_1700000000'' HttpStarted
         [(''id'', JStr ''test_1700000000''), (''type'', JStr ''HTTP Test''),
          (''url'', JStr ''http://h/''), (''users'', JNum 5), (''duration'', JNum 10),
          (''ramp_up'', JNum 10), (''think_time'', JNum 1000)]
   \<and> get_test_status
       (foldl srv_step (map_of [])
          [StartRequest (Local None) 1700000000
             (JObj [(''type'', JStr ''HTTP Test''), (''url'', JStr ''http://h/''),
                    (''users'', JNum 5), (''duration'', JNum 10)]),
           StartRequest (Local None) (3400000001 / 2)
             (JObj [(''type'', JStr ''Load Test''), (''url'', JStr ''http://g/''),
                    (''users'', JNum 7), (''duration'', JNum 60)])])
       ''test_1700000000''
     = Found \<lparr>sd_testId = ''test_1700000000'', sd_status = ''running'',
              sd_startTime = 3400000001 / 2,
              sd_config =
                [(''id'', JStr ''test_1700000000''), (''type'', JStr ''Load Test''),
                 (''url'', JStr ''http://g/''), (''users'', JNum 7), (''duration'', JNum 60),
                 (''ramp_up'', JNum 10), (''think_time'', JNum 1000)],
              sd_endTime = None, sd_results = None, sd_error = None\<rparr>
   \<and> (case stop_test
       (foldl srv_step (map_of [])
          [StartRequest (Local None) 1700000000
             (JObj [(''type'', JStr ''HTTP Test''), (''url'', JStr ''http://h/''),
                    (''users'', JNum 5), (''duration'', JNum 10)]),
           StartRequest (Local None) (3400000001 / 2)
             (JObj [(''type'', JStr ''Load Test''), (''url'', JStr ''http://g/''),
                    (''users'', JNum 7), (''duration'', JNum 60)])])
       ''test_1700000000'' of
        Inl e \<Rightarrow> False
      | Inr p \<Rightarrow> fst p = StopOk ''Test test_1700000000 stopped'')"
proof -
  have tid: "make_test_id 1700000000 = ''test_1700000000''"
    by (simp add: make_test_id_def py_int_def str_int_def str_nat.simps)
  have tid2: "make_test_id (3400000001 / 2) = ''test_1700000000''"
    by (simp add: make_test_id_def py_int_def str_int_def str_nat.simps)
  show ?thesis
    by (simp add: start_test_def Let_def required_fields_def dict_get_default_def tid tid2
          make_test_config_def copy_if_present_def optional_fields_def make_http_cfg_def
          dict_get_def run_jmeter_test_def get_test_status_def stop_test_def)
qed

end
